theory Spec2Isabelle
  imports Complex_Main
begin

section \<open>The ESG dashboard script (dashboard.py)\<close>

text \<open>
  \<^verbatim>\<open>dashboard.py\<close> is one script, run top to bottom on every interaction. Its inputs are the
  two sidebar selections and the process-wide random source of numpy; its output is the
  sequence of values handed to the presentation framework and to the chart library. The
  script is embedded as the function \<open>dashboard_py_in\<close> from the installed pandas, the two
  selections and the random source to that output, with every call that can raise modelled
  as returning an error; \<open>dashboard_py\<close> is the run on a pandas that accepts the frequency
  alias of line 118.

  Floating-point numbers are idealised as reals. Colours, sizes and layout, and the sidebar
  caption with the current date, carry no data and are left out.
\<close>

subsection \<open>Errors and values\<close>

datatype error = ValueError | DateError

text \<open>The argument of \<^verbatim>\<open>st.metric(label, value, delta, delta_color="normal")\<close>.\<close>

record metric =
  m_label :: string
  m_value :: string
  m_delta :: string
  m_delta_color :: string

text \<open>An x value of a chart: a category name, or a calendar date (year, month, day).\<close>

datatype xval = Cat string | Date int nat nat

text \<open>
  One trace of a chart. \<open>sx\<close> is \<open>None\<close> where the script passes no \<^verbatim>\<open>x\<close> argument.
\<close>

record series =
  s_name :: string
  sx :: "xval list option"
  sy :: "real list"

record pie =
  p_labels :: "string list"
  p_values :: "int list"
  p_annotation :: string

record gauge =
  g_value :: int
  g_axis_max :: int

record sankey =
  node_label :: "string list"
  link_source :: "nat list"
  link_target :: "nat list"
  link_value :: "int list"

record dashboard =
  header :: string
  kpis :: "metric list"
  fig_ghg :: series
  fig_energy :: series
  fig_water :: series
  fig_dist :: series
  fig_minerals :: pie
  fig_gauge :: gauge
  fig_inc :: "series list"
  fig_sankey :: sankey

subsection \<open>The sidebar controls\<close>

text \<open>
  \<^verbatim>\<open>st.sidebar.selectbox("Fiscal Year", [2025, 2024, 2023])\<close> and
  \<^verbatim>\<open>st.sidebar.selectbox("Scope", [...])\<close> return one of their options.
\<close>

definition fiscal_years :: "int list" where
  "fiscal_years = [2025, 2024, 2023]"

definition scopes :: "string list" where
  "scopes = [''Global'', ''North America'', ''EMEA'', ''APAC'']"

subsection \<open>String formatting\<close>

text \<open>Python's \<^verbatim>\<open>str\<close> of an integer, and the format specification \<^verbatim>\<open>:,\<close>.\<close>

definition digit_char :: "nat \<Rightarrow> char" where
  "digit_char n = ''0123456789'' ! n"

fun digits :: "nat \<Rightarrow> string" where
  "digits n = (if n < 10 then [digit_char n] else digits (n div 10) @ [digit_char (n mod 10)])"

declare digits.simps [simp del]

definition str_int :: "int \<Rightarrow> string" where
  "str_int i = (if i < 0 then CHR ''-'' # digits (nat (- i)) else digits (nat i))"

function group3 :: "string \<Rightarrow> string" where
  "group3 ds = (if length ds \<le> 3 then ds
                else group3 (take (length ds - 3) ds) @ CHR '','' # drop (length ds - 3) ds)"
  by pat_completeness auto
termination
  by (relation "measure length") auto

declare group3.simps [simp del]

definition fmt_comma :: "int \<Rightarrow> string" where
  "fmt_comma i = (if i < 0 then CHR ''-'' # group3 (digits (nat (- i))) else group3 (digits (nat i)))"

subsection \<open>The library calls\<close>

text \<open>
  The random source, as the variates it will deliver next: \<open>gauss\<close> the standard normal
  ones, \<open>unif\<close> the ones uniform on the unit interval.
\<close>

record rng =
  gauss :: "nat \<Rightarrow> real"
  unif :: "nat \<Rightarrow> real"

text \<open>\<^verbatim>\<open>np.random.normal(loc, scale, size)\<close>: \<open>size\<close> draws, and the source advanced.\<close>

definition np_random_normal :: "real \<Rightarrow> real \<Rightarrow> nat \<Rightarrow> rng \<Rightarrow> real list \<times> rng" where
  "np_random_normal loc scale n g =
     (map (\<lambda>i. loc + scale * gauss g i) [0..<n],
      g\<lparr>gauss := \<lambda>i. gauss g (i + n)\<rparr>)"

text \<open>\<^verbatim>\<open>np.linspace(start, stop, num)\<close>, end point included.\<close>

definition np_linspace :: "real \<Rightarrow> real \<Rightarrow> nat \<Rightarrow> real list" where
  "np_linspace start stop num =
     (if num = 1 then [start]
      else map (\<lambda>i. start + real i * ((stop - start) / real (num - 1))) [0..<num])"

text \<open>
  \<^verbatim>\<open>a + b\<close> on one-dimensional arrays: element by element, a one-element array broadcast,
  and \<^verbatim>\<open>ValueError\<close> on any other pair of shapes.
\<close>

definition np_add :: "real list \<Rightarrow> real list \<Rightarrow> error + real list" where
  "np_add a b =
     (if length a = length b then Inr (map2 (+) a b)
      else if length a = 1 then Inr (map (\<lambda>y. hd a + y) b)
      else if length b = 1 then Inr (map (\<lambda>x. x + hd b) a)
      else Inl ValueError)"

text \<open>
  The installed pandas, as far as the script can tell versions apart. The script pins no
  version, and the frequency alias \<^verbatim>\<open>'M'\<close> that it passes on line 118 is accepted by
  pandas before version 3 (as the month end, lately with a deprecation warning) and refused
  from version 3 on with \<^verbatim>\<open>ValueError: Invalid frequency: M\<close>.
\<close>

datatype pandas = Accepts_M | Rejects_M

text \<open>
  \<^verbatim>\<open>pd.date_range(start=f"{year}-01-01", periods=periods, freq='M')\<close>: the frequency is
  resolved first; then the last days of \<open>periods\<close> consecutive months from January of
  \<open>year\<close>. The dates of a nanosecond index lie between 1677-09-21 and 2262-04-11; the call
  raises outside. The model follows pandas for years written with four digits, as those of
  the selector are.
\<close>

definition leap_year :: "int \<Rightarrow> bool" where
  "leap_year y = (y mod 4 = 0 \<and> (y mod 100 \<noteq> 0 \<or> y mod 400 = 0))"

definition days_in_month :: "int \<Rightarrow> nat \<Rightarrow> nat" where
  "days_in_month y m =
     (if m = 2 then (if leap_year y then 29 else 28)
      else if m = 4 \<or> m = 6 \<or> m = 9 \<or> m = 11 then 30 else 31)"

definition month_end :: "int \<Rightarrow> nat \<Rightarrow> xval" where
  "month_end year i =
     (let y = year + int (i div 12); m = i mod 12 + 1 in Date y m (days_in_month y m))"

fun date_ok :: "xval \<Rightarrow> bool" where
  "date_ok (Date y m d) = (y < 2262 \<or> (y = 2262 \<and> m \<le> 3))"
| "date_ok (Cat c) = True"

definition pd_date_range :: "pandas \<Rightarrow> int \<Rightarrow> nat \<Rightarrow> error + xval list" where
  "pd_date_range lib year periods =
     (if lib = Rejects_M then Inl ValueError
      else if year < 1678 \<or> 2262 < year then Inl DateError
      else let ds = map (month_end year) [0..<periods]
           in if list_all date_ok ds then Inr ds else Inl DateError)"

text \<open>
  \<^verbatim>\<open>pd.DataFrame({'Date': dates, 'Emissions': vals})\<close> raises \<^verbatim>\<open>ValueError\<close> on columns of
  different lengths; \<^verbatim>\<open>px.area(df, x='Date', y='Emissions')\<close> plots the two columns.
\<close>

definition pd_DataFrame :: "xval list \<Rightarrow> real list \<Rightarrow> error + xval list \<times> real list" where
  "pd_DataFrame dates vals =
     (if length dates = length vals then Inr (dates, vals) else Inl ValueError)"

definition px_area :: "xval list \<times> real list \<Rightarrow> string \<Rightarrow> series" where
  "px_area df title = \<lparr>s_name = title, sx = Some (fst df), sy = snd df\<rparr>"

text \<open>\<^verbatim>\<open>px.bar(x=xs, y=ys, title=title)\<close> raises on arguments of different lengths.\<close>

definition px_bar :: "string list \<Rightarrow> real list \<Rightarrow> string \<Rightarrow> error + series" where
  "px_bar xs ys title =
     (if length xs = length ys then Inr \<lparr>s_name = title, sx = Some (map Cat xs), sy = ys\<rparr>
      else Inl ValueError)"

text \<open>\<^verbatim>\<open>px.box(y=ys, title=title)\<close>: no \<^verbatim>\<open>x\<close> is given.\<close>

definition px_box :: "real list \<Rightarrow> string \<Rightarrow> series" where
  "px_box ys title = \<lparr>s_name = title, sx = None, sy = ys\<rparr>"

text \<open>\<^verbatim>\<open>go.Bar(x=xs, y=ys, name=name)\<close> and \<^verbatim>\<open>go.Scatter(...)\<close> check no lengths.\<close>

definition go_trace :: "string list \<Rightarrow> real list \<Rightarrow> string \<Rightarrow> series" where
  "go_trace xs ys name = \<lparr>s_name = name, sx = Some (map Cat xs), sy = ys\<rparr>"

subsection \<open>The script\<close>

definition val_ghg :: "int \<Rightarrow> int" where
  "val_ghg selected_year = (if selected_year = 2024 then 54000 else 49500)"

definition val_energy :: "int \<Rightarrow> int" where
  "val_energy selected_year = (if selected_year = 2024 then 120 else 115)"

definition header_text :: "string \<Rightarrow> int \<Rightarrow> string" where
  "header_text selected_scope selected_year =
     ''Overview of sustainability performance for **'' @ selected_scope
       @ ''** in **FY '' @ str_int selected_year @ ''**.''"

definition st_metric :: "string \<Rightarrow> string \<Rightarrow> string \<Rightarrow> metric" where
  "st_metric l v d = \<lparr>m_label = l, m_value = v, m_delta = d, m_delta_color = ''normal''\<rparr>"

definition k1 :: "int \<Rightarrow> metric" where
  "k1 selected_year =
     st_metric ''Total GHG Emissions'' (fmt_comma (val_ghg selected_year) @ '' tCO2e'') ''-8.5%''"

definition k2 :: "int \<Rightarrow> metric" where
  "k2 selected_year =
     st_metric ''Energy Intensity'' (str_int (val_energy selected_year) @ '' kWh/Unit'') ''-4.2%''"

definition k3 :: metric where
  "k3 = (st_metric ''Water Withdrawal'' (''1.5M m'' @ [CHR 0xB3]) ''+1.2%'')
          \<lparr>m_delta_color := ''inverse''\<rparr>"

definition k4 :: metric where
  "k4 = st_metric ''ESRS Compliance'' ''88%'' ''+12%''"

definition k5 :: metric where
  "k5 = st_metric ''Supplier ESG Score'' ''74/100'' ''+2.5''"

definition trend_vals :: "rng \<Rightarrow> (error + real list) \<times> rng" where
  "trend_vals g =
     (let (noise, g') = np_random_normal 0 100 12 g
      in (np_add (np_linspace 6000 4500 12) noise, g'))"

definition scores :: "rng \<Rightarrow> real list \<times> rng" where
  "scores g = np_random_normal 72 10 200 g"

definition minerals :: pie where
  "minerals = \<lparr>p_labels = [''Compliant'', ''Non-Compliant''], p_values = [98, 2],
                p_annotation = ''98%''\<rparr>"

definition quarters :: "string list" where
  "quarters = [''Q1'', ''Q2'', ''Q3'', ''Q4'']"

definition sankey_data :: sankey where
  "sankey_data =
     \<lparr>node_label = [''Sourcing'', ''Manufacturing'', ''Distribution'', ''Use Phase'',
                     ''Recycling'', ''Landfill''],
      link_source = [0, 1, 1, 2, 3, 3],
      link_target = [1, 2, 5, 3, 4, 5],
      link_value = [100, 85, 15, 85, 60, 25]\<rparr>"

text \<open>
  The statements of the script in their order, run on the installed pandas \<open>lib\<close>; the first
  call that raises ends the run.
\<close>

definition dashboard_py_in :: "pandas \<Rightarrow> int \<Rightarrow> string \<Rightarrow> rng \<Rightarrow> error + dashboard" where
  "dashboard_py_in lib selected_year selected_scope g =
     (let hd_text = header_text selected_scope selected_year;
          ks = [k1 selected_year, k2 selected_year, k3, k4, k5]
      in case pd_date_range lib selected_year 12 of Inl e \<Rightarrow> Inl e
       | Inr dates \<Rightarrow>
      (case trend_vals g of (Inl e, g1) \<Rightarrow> Inl e
       | (Inr tv, g1) \<Rightarrow>
      (case pd_DataFrame dates tv of Inl e \<Rightarrow> Inl e
       | Inr df_trend \<Rightarrow>
      (case px_bar [''Facility A'', ''Facility B'', ''Facility C''] [220, 180, 110]
              ''<b>Energy Consumption by Facility</b>'' of Inl e \<Rightarrow> Inl e
       | Inr f_energy \<Rightarrow>
      (case px_bar [''Region X'', ''Region Y'', ''Region Z''] [50, 40, 25]
              ''<b>Water Withdrawal by Region</b>'' of Inl e \<Rightarrow> Inl e
       | Inr f_water \<Rightarrow>
      Inr \<lparr>header = hd_text,
           kpis = ks,
           fig_ghg = px_area df_trend ''<b>GHG Emissions Trend</b>'',
           fig_energy = f_energy,
           fig_water = f_water,
           fig_dist = px_box (fst (scores g1)) ''<b>Supplier ESG Score Dist.</b>'',
           fig_minerals = minerals,
           fig_gauge = \<lparr>g_value = 85, g_axis_max = 100\<rparr>,
           fig_inc = [go_trace quarters [4, 2, 5, 1] ''Count'',
                      go_trace quarters [24, 12, 18, 8] ''Hours''],
           fig_sankey = sankey_data\<rparr>)))))"

text \<open>The run on a pandas that accepts the frequency alias of line 118.\<close>

definition dashboard_py :: "int \<Rightarrow> string \<Rightarrow> rng \<Rightarrow> error + dashboard" where
  "dashboard_py = dashboard_py_in Accepts_M"

subsection \<open>Reading the output\<close>

text \<open>The six series of the charts, in the order the script draws them.\<close>

definition all_series :: "dashboard \<Rightarrow> series list" where
  "all_series d = [fig_ghg d, fig_energy d, fig_water d, fig_dist d] @ fig_inc d"

text \<open>
  \<^verbatim>\<open>len(x) == len(y)\<close> on a series: it holds of no series without an \<^verbatim>\<open>x\<close>
  (\<^verbatim>\<open>len(None)\<close> raises).
\<close>

definition xy_same_length :: "series \<Rightarrow> bool" where
  "xy_same_length s = (case sx s of None \<Rightarrow> False | Some xs \<Rightarrow> length xs = length (sy s))"

text \<open>The links of a Sankey diagram, and the flow into and out of node \<open>n\<close>.\<close>

definition links :: "sankey \<Rightarrow> (nat \<times> nat \<times> int) list" where
  "links k = zip (link_source k) (zip (link_target k) (link_value k))"

definition inflow :: "sankey \<Rightarrow> nat \<Rightarrow> int" where
  "inflow k n = sum_list (map (\<lambda>(s, t, v). if t = n then v else 0) (links k))"

definition outflow :: "sankey \<Rightarrow> nat \<Rightarrow> int" where
  "outflow k n = sum_list (map (\<lambda>(s, t, v). if s = n then v else 0) (links k))"

definition intermediate :: "sankey \<Rightarrow> nat \<Rightarrow> bool" where
  "intermediate k n = (n \<in> set (link_target k) \<and> n \<in> set (link_source k))"

text \<open>The number that a displayed percentage such as \<^verbatim>\<open>88%\<close> renders.\<close>

definition digit_of :: "char \<Rightarrow> nat option" where
  "digit_of = map_of [(CHR ''0'', 0), (CHR ''1'', 1), (CHR ''2'', 2), (CHR ''3'', 3),
     (CHR ''4'', 4), (CHR ''5'', 5), (CHR ''6'', 6), (CHR ''7'', 7), (CHR ''8'', 8),
     (CHR ''9'', 9)]"

fun parse_digits :: "string \<Rightarrow> nat \<Rightarrow> nat option" where
  "parse_digits [] acc = Some acc"
| "parse_digits (c # cs) acc =
     (case digit_of c of None \<Rightarrow> None | Some k \<Rightarrow> parse_digits cs (10 * acc + k))"

definition percent_value :: "string \<Rightarrow> int option" where
  "percent_value s =
     (if length s < 2 \<or> last s \<noteq> CHR ''%'' then None
      else map_option int (parse_digits (butlast s) 0))"

text \<open>The share of slice \<open>i\<close> of a pie chart, in percent.\<close>

definition pie_share :: "pie \<Rightarrow> nat \<Rightarrow> real" where
  "pie_share p i = 100 * real_of_int (p_values p ! i) / real_of_int (sum_list (p_values p))"

text \<open>
  The sampling as the specification words it, to compare with \<open>trend_vals\<close>:
  \<^verbatim>\<open>np.random.uniform(low, high, n)\<close>, and uniform noise added to the ramp of the script.
\<close>

definition np_random_uniform :: "real \<Rightarrow> real \<Rightarrow> nat \<Rightarrow> rng \<Rightarrow> real list \<times> rng" where
  "np_random_uniform low high n g =
     (map (\<lambda>i. low + (high - low) * unif g i) [0..<n],
      g\<lparr>unif := \<lambda>i. unif g (i + n)\<rparr>)"

definition trend_vals_as_specified :: "real \<Rightarrow> real \<Rightarrow> rng \<Rightarrow> (error + real list) \<times> rng" where
  "trend_vals_as_specified low high g =
     (let (noise, g') = np_random_uniform low high 12 g
      in (np_add (np_linspace 6000 4500 12) noise, g'))"

text \<open>
  The four shape invariants of a run. The first is stated for the five series that have
  an \<^verbatim>\<open>x\<close>; the box plot of the scores has none.
\<close>

definition lengths_agree :: "dashboard \<Rightarrow> bool" where
  "lengths_agree d =
     (xy_same_length (fig_ghg d) \<and> xy_same_length (fig_energy d)
      \<and> xy_same_length (fig_water d)
      \<and> list_all xy_same_length (fig_inc d) \<and> map s_name (fig_inc d) = [''Count'', ''Hours'']
      \<and> sx (fig_dist d) = None)"

definition year_values_shown :: "int \<Rightarrow> dashboard \<Rightarrow> bool" where
  "year_values_shown y d =
     (m_value (kpis d ! 0) = (if y = 2024 then ''54,000 tCO2e'' else ''49,500 tCO2e'')
      \<and> m_value (kpis d ! 1) = (if y = 2024 then ''120 kWh/Unit'' else ''115 kWh/Unit''))"

definition in_percent_range :: "real \<Rightarrow> bool" where
  "in_percent_range v = (0 \<le> v \<and> v \<le> 100)"

definition percentages_in_range :: "dashboard \<Rightarrow> bool" where
  "percentages_in_range d =
     (case percent_value (m_value (kpis d ! 3)) of None \<Rightarrow> False
      | Some v \<Rightarrow> in_percent_range (real_of_int v)
                  \<and> in_percent_range (pie_share (fig_minerals d) 0))"

definition sample_counts :: "dashboard \<Rightarrow> bool" where
  "sample_counts d = (length (sy (fig_ghg d)) = 12 \<and> length (sy (fig_dist d)) = 200)"

text \<open>Random sources to run the script on.\<close>

definition rng_const :: "real \<Rightarrow> rng" where
  "rng_const c = \<lparr>gauss = (\<lambda>i. c), unif = (\<lambda>i. 0)\<rparr>"

definition rng_spike :: rng where
  "rng_spike = \<lparr>gauss = (\<lambda>i. if i = 0 then 1 else 0), unif = (\<lambda>i. 0)\<rparr>"

section \<open>Properties\<close>

subsection \<open>What a run returns\<close>

lemma pd_date_range_12:
  "1678 \<le> y \<Longrightarrow> y < 2262
   \<Longrightarrow> pd_date_range Accepts_M y 12 = Inr (map (month_end y) [0..<12])"
  by (simp add: pd_date_range_def Let_def list_all_iff month_end_def)

lemma pd_date_range_refused: "pd_date_range Rejects_M y n = Inl ValueError"
  by (simp add: pd_date_range_def)

lemma dashboard_py_in_refused: "dashboard_py_in Rejects_M y s g = Inl ValueError"
  by (simp add: dashboard_py_in_def pd_date_range_refused)

lemma trend_vals_value:
  "trend_vals g =
     (Inr (map (\<lambda>i. 6000 + real i * (- 1500 / 11) + 100 * gauss g i) [0..<12]),
      g\<lparr>gauss := \<lambda>i. gauss g (i + 12)\<rparr>)"
  by (simp add: trend_vals_def np_random_normal_def np_add_def np_linspace_def
      zip_map_map map2_map_map zip_same_conv_map)

lemma scores_value:
  "scores g = (map (\<lambda>i. 72 + 10 * gauss g i) [0..<200], g\<lparr>gauss := \<lambda>i. gauss g (i + 200)\<rparr>)"
  by (simp add: scores_def np_random_normal_def)

lemma dashboard_py_value:
  assumes "1678 \<le> y" and "y < 2262"
  shows "dashboard_py y s g = Inr
     \<lparr>header = header_text s y,
      kpis = [k1 y, k2 y, k3, k4, k5],
      fig_ghg = \<lparr>s_name = ''<b>GHG Emissions Trend</b>'',
                 sx = Some (map (month_end y) [0..<12]),
                 sy = map (\<lambda>i. 6000 + real i * (- 1500 / 11) + 100 * gauss g i) [0..<12]\<rparr>,
      fig_energy = \<lparr>s_name = ''<b>Energy Consumption by Facility</b>'',
                    sx = Some [Cat ''Facility A'', Cat ''Facility B'', Cat ''Facility C''],
                    sy = [220, 180, 110]\<rparr>,
      fig_water = \<lparr>s_name = ''<b>Water Withdrawal by Region</b>'',
                   sx = Some [Cat ''Region X'', Cat ''Region Y'', Cat ''Region Z''],
                   sy = [50, 40, 25]\<rparr>,
      fig_dist = \<lparr>s_name = ''<b>Supplier ESG Score Dist.</b>'', sx = None,
                  sy = map (\<lambda>i. 72 + 10 * gauss g (i + 12)) [0..<200]\<rparr>,
      fig_minerals = minerals,
      fig_gauge = \<lparr>g_value = 85, g_axis_max = 100\<rparr>,
      fig_inc = [\<lparr>s_name = ''Count'', sx = Some (map Cat quarters), sy = [4, 2, 5, 1]\<rparr>,
                 \<lparr>s_name = ''Hours'', sx = Some (map Cat quarters), sy = [24, 12, 18, 8]\<rparr>],
      fig_sankey = sankey_data\<rparr>"
  using assms
  by (simp add: dashboard_py_def dashboard_py_in_def pd_date_range_12 trend_vals_value
      scores_value
      pd_DataFrame_def px_area_def px_bar_def px_box_def go_trace_def)

lemma fiscal_year_bounds: "y \<in> set fiscal_years \<Longrightarrow> 1678 \<le> y \<and> y < 2262"
  by (auto simp: fiscal_years_def)

lemma dashboard_py_returns:
  "y \<in> set fiscal_years \<Longrightarrow> \<exists>d. dashboard_py y s g = Inr d"
  by (simp add: dashboard_py_value fiscal_year_bounds)

lemma fig_sankey_of_run: "dashboard_py y s g = Inr d \<Longrightarrow> fig_sankey d = sankey_data"
  by (auto simp: dashboard_py_def dashboard_py_in_def Let_def split: sum.splits prod.splits)

lemma sankey_links:
  "links sankey_data = [(0, 1, 100), (1, 2, 85), (1, 5, 15), (2, 3, 85), (3, 4, 60), (3, 5, 25)]"
  by (simp add: links_def sankey_data_def)

lemma k1_value:
  "m_value (k1 y) = (if y = 2024 then ''54,000 tCO2e'' else ''49,500 tCO2e'')"
  by (simp add: k1_def st_metric_def val_ghg_def fmt_comma_def digits.simps group3.simps
      digit_char_def)

lemma k2_value:
  "m_value (k2 y) = (if y = 2024 then ''120 kWh/Unit'' else ''115 kWh/Unit'')"
  by (simp add: k2_def st_metric_def val_energy_def str_int_def digits.simps digit_char_def)

lemma k4_percent: "percent_value (m_value k4) = Some 88"
  by (simp add: k4_def st_metric_def percent_value_def digit_of_def)

lemma minerals_share: "pie_share minerals 0 = 98"
  by (simp add: pie_share_def minerals_def)

lemma lengths_agree_run:
  "1678 \<le> y \<Longrightarrow> y < 2262 \<Longrightarrow> \<exists>d. dashboard_py y s g = Inr d \<and> lengths_agree d"
  by (simp add: dashboard_py_value lengths_agree_def xy_same_length_def quarters_def)

lemma year_values_run:
  "1678 \<le> y \<Longrightarrow> y < 2262 \<Longrightarrow> \<exists>d. dashboard_py y s g = Inr d \<and> year_values_shown y d"
  by (simp add: dashboard_py_value year_values_shown_def k1_value k2_value)

lemma percentages_run:
  "1678 \<le> y \<Longrightarrow> y < 2262 \<Longrightarrow> \<exists>d. dashboard_py y s g = Inr d \<and> percentages_in_range d"
  by (simp add: dashboard_py_value percentages_in_range_def k4_percent minerals_share
      in_percent_range_def)

lemma sample_counts_run:
  "1678 \<le> y \<Longrightarrow> y < 2262 \<Longrightarrow> \<exists>d. dashboard_py y s g = Inr d \<and> sample_counts d"
  by (simp add: dashboard_py_value sample_counts_def)

lemma const_maps_differ:
  fixes f g :: "nat \<Rightarrow> real"
  assumes "f 0 \<noteq> g 0" and "0 < n"
  shows "map f [0..<n] \<noteq> map g [0..<n]"
proof
  assume "map f [0..<n] = map g [0..<n]"
  then have "\<forall>i\<in>{0..<n}. f i = g i"
    by simp
  then have "f 0 = g 0"
    using assms(2) by simp
  then show False
    using assms(1) by simp
qed

subsection \<open>The claims\<close>

text \<open>
  C1. For every fiscal year of the selector, the emissions total is 54000 when the year is
  2024 and 49500 otherwise, and the energy intensity is 120 when the year is 2024 and 115
  otherwise; the run shows them so in the first two cards.
\<close>

theorem fiscal_year_conditional_values:
  assumes "selected_year \<in> set fiscal_years"
  shows "val_ghg selected_year = (if selected_year = 2024 then 54000 else 49500)
       \<and> val_energy selected_year = (if selected_year = 2024 then 120 else 115)
       \<and> (\<exists>d. dashboard_py selected_year selected_scope g = Inr d
            \<and> m_value (kpis d ! 0)
                = (if selected_year = 2024 then ''54,000 tCO2e'' else ''49,500 tCO2e'')
            \<and> m_value (kpis d ! 1)
                = (if selected_year = 2024 then ''120 kWh/Unit'' else ''115 kWh/Unit''))"
proof -
  have numbers: "val_ghg selected_year = (if selected_year = 2024 then 54000 else 49500)"
    "val_energy selected_year = (if selected_year = 2024 then 120 else 115)"
    by (simp_all add: val_ghg_def val_energy_def)
  have cards: "\<exists>d. dashboard_py selected_year selected_scope g = Inr d
      \<and> m_value (kpis d ! 0) = m_value (k1 selected_year)
      \<and> m_value (kpis d ! 1) = m_value (k2 selected_year)"
    using fiscal_year_bounds [OF assms] by (simp add: dashboard_py_value)
  show ?thesis
    using numbers cards unfolding k1_value k2_value by blast
qed

theorem fiscal_year_conditional_values_witness:
  "(2024::int) \<in> set fiscal_years
   \<and> val_ghg 2024 = 54000 \<and> val_energy 2024 = 120
   \<and> (\<exists>d. dashboard_py 2024 ''Global'' (rng_const 0) = Inr d
        \<and> m_value (kpis d ! 0) = ''54,000 tCO2e''
        \<and> m_value (kpis d ! 1) = ''120 kWh/Unit'')"
proof -
  have h: "(2024::int) \<in> set fiscal_years"
    by (simp add: fiscal_years_def)
  show ?thesis
    using h fiscal_year_conditional_values [OF h, of "''Global''" "rng_const 0"] by simp
qed

text \<open>
  C2. In the Sankey data of a run, no node that is both a target and a source of links sends
  more than it receives; the node "Manufacturing" receives 100 and sends 85 + 15 = 100.
\<close>

theorem sankey_conservation:
  assumes "dashboard_py y s g = Inr d" and "intermediate (fig_sankey d) n"
  shows "outflow (fig_sankey d) n \<le> inflow (fig_sankey d) n
       \<and> node_label (fig_sankey d) ! 1 = ''Manufacturing''
       \<and> inflow (fig_sankey d) 1 = 100
       \<and> outflow (fig_sankey d) 1 = 85 + 15"
proof -
  have k: "fig_sankey d = sankey_data"
    using assms(1) by (rule fig_sankey_of_run)
  have "n \<in> set (link_target sankey_data) \<and> n \<in> set (link_source sankey_data)"
    using assms(2) by (simp add: k intermediate_def)
  then have n: "n = 1 \<or> n = 2 \<or> n = 3"
    by (auto simp: sankey_data_def)
  have "outflow sankey_data n \<le> inflow sankey_data n"
    using n by (auto simp: inflow_def outflow_def sankey_links)
  moreover have "node_label sankey_data ! 1 = ''Manufacturing''"
    by (simp add: sankey_data_def)
  moreover have "inflow sankey_data 1 = 100" "outflow sankey_data 1 = 85 + 15"
    by (simp_all add: inflow_def outflow_def sankey_links)
  ultimately show ?thesis
    by (simp add: k)
qed

theorem sankey_conservation_witness:
  "\<exists>d. dashboard_py 2025 ''Global'' (rng_const 0) = Inr d
     \<and> intermediate (fig_sankey d) 3
     \<and> outflow (fig_sankey d) 3 \<le> inflow (fig_sankey d) 3
     \<and> inflow (fig_sankey d) 1 = 100 \<and> outflow (fig_sankey d) 1 = 100"
proof -
  obtain d where d: "dashboard_py 2025 ''Global'' (rng_const 0) = Inr d"
    by (simp add: dashboard_py_value)
  have i: "intermediate (fig_sankey d) 3"
    by (simp add: fig_sankey_of_run [OF d] intermediate_def sankey_data_def)
  show ?thesis
    using d i sankey_conservation [OF d i] by auto
qed

text \<open>
  C3. As stated, for every series of a run the x sequence and the y sequence have equal
  length. The box plot of the supplier scores is drawn from \<^verbatim>\<open>y\<close> alone, so it has no x
  sequence to compare. What holds: the trend, the two bar charts and the two incident
  traces have x and y of equal length, and the score distribution has 200 y values and no x.
\<close>

theorem series_lengths_agree_where_x_given:
  assumes "selected_year \<in> set fiscal_years"
  shows "\<exists>d. dashboard_py selected_year selected_scope g = Inr d
            \<and> lengths_agree d \<and> length (sy (fig_dist d)) = 200"
  using fiscal_year_bounds [OF assms]
  by (simp add: dashboard_py_value lengths_agree_def xy_same_length_def quarters_def)

theorem series_lengths_agree_where_x_given_witness:
  "(2025::int) \<in> set fiscal_years
   \<and> (\<exists>d. dashboard_py 2025 ''Global'' (rng_const 0) = Inr d
        \<and> lengths_agree d \<and> length (sy (fig_dist d)) = 200)"
proof -
  have y: "(2025::int) \<in> set fiscal_years"
    by (simp add: fiscal_years_def)
  show ?thesis
    using y series_lengths_agree_where_x_given [OF y, of "''Global''" "rng_const 0"] by simp
qed

theorem score_distribution_has_no_x:
  "\<not> isl (dashboard_py 2025 ''Global'' (rng_const 0))
   \<and> \<not> list_all xy_same_length
          (all_series (projr (dashboard_py 2025 ''Global'' (rng_const 0))))"
  by (simp add: dashboard_py_value all_series_def xy_same_length_def)

text \<open>
  C4. Whatever the selections and the random draws, the monthly emissions trend of a run
  has exactly 12 points and the supplier score sample exactly 200.
\<close>

theorem sampled_series_counts:
  assumes "selected_year \<in> set fiscal_years"
  shows "\<exists>d. dashboard_py selected_year selected_scope g = Inr d
            \<and> length (sy (fig_ghg d)) = 12
            \<and> map_option length (sx (fig_ghg d)) = Some 12
            \<and> length (sy (fig_dist d)) = 200"
  using fiscal_year_bounds [OF assms]
  by (simp add: dashboard_py_value)

theorem sampled_series_counts_witness:
  "(2023::int) \<in> set fiscal_years
   \<and> (\<exists>d. dashboard_py 2023 ''EMEA'' rng_spike = Inr d
        \<and> length (sy (fig_ghg d)) = 12
        \<and> map_option length (sx (fig_ghg d)) = Some 12
        \<and> length (sy (fig_dist d)) = 200)"
proof -
  have y: "(2023::int) \<in> set fiscal_years"
    by (simp add: fiscal_years_def)
  show ?thesis
    using y sampled_series_counts [OF y, of "''EMEA''" rng_spike] by simp
qed

text \<open>
  C5. For any two fiscal years of the selector, with the same scope and random source, the
  cards after the first two (water withdrawal, compliance percentage, supplier score) are
  identical: label, displayed value, delta and delta colour.
\<close>

theorem other_indicators_unchanged:
  assumes "year1 \<in> set fiscal_years" and "year2 \<in> set fiscal_years"
  shows "\<exists>d1 d2. dashboard_py year1 selected_scope g = Inr d1
            \<and> dashboard_py year2 selected_scope g = Inr d2
            \<and> map m_label (kpis d1) = [''Total GHG Emissions'', ''Energy Intensity'',
                 ''Water Withdrawal'', ''ESRS Compliance'', ''Supplier ESG Score'']
            \<and> map m_label (kpis d2) = map m_label (kpis d1)
            \<and> drop 2 (kpis d1) = drop 2 (kpis d2)"
  using fiscal_year_bounds [OF assms(1)] fiscal_year_bounds [OF assms(2)]
  by (simp add: dashboard_py_value k1_def k2_def k3_def k4_def k5_def st_metric_def)

theorem other_indicators_unchanged_witness:
  "(2024::int) \<in> set fiscal_years \<and> (2025::int) \<in> set fiscal_years
   \<and> (\<exists>d1 d2. dashboard_py 2024 ''Global'' (rng_const 0) = Inr d1
        \<and> dashboard_py 2025 ''Global'' (rng_const 0) = Inr d2
        \<and> drop 2 (kpis d1) = drop 2 (kpis d2))"
proof -
  have y1: "(2024::int) \<in> set fiscal_years" and y2: "(2025::int) \<in> set fiscal_years"
    by (simp_all add: fiscal_years_def)
  show ?thesis
    using y1 y2 other_indicators_unchanged [OF y1 y2, of "''Global''" "rng_const 0"] by blast
qed

text \<open>
  C6. In every run on a fiscal year of the selector, the compliance percentage shown (88)
  and the compliant share of the conflict-minerals pie (98) lie between 0 and 100.
\<close>

theorem percentages_within_0_100:
  assumes "selected_year \<in> set fiscal_years"
  shows "\<exists>d. dashboard_py selected_year selected_scope g = Inr d
            \<and> percent_value (m_value (kpis d ! 3)) = Some 88
            \<and> pie_share (fig_minerals d) 0 = 98
            \<and> percentages_in_range d"
  using fiscal_year_bounds [OF assms]
  by (simp add: dashboard_py_value percentages_in_range_def k4_percent minerals_share
      in_percent_range_def)

theorem percentages_within_0_100_witness:
  "(2024::int) \<in> set fiscal_years
   \<and> (\<exists>d. dashboard_py 2024 ''North America'' (rng_const 1) = Inr d
        \<and> percentages_in_range d)"
proof -
  have y: "(2024::int) \<in> set fiscal_years"
    by (simp add: fiscal_years_def)
  show ?thesis
    using y percentages_within_0_100 [OF y, of "''North America''" "rng_const 1"] by blast
qed

text \<open>
  C7. As stated, two runs on the same selections may differ in the sampled trend and score
  values, and every run satisfies invariants 1 to 4. Invariant 1 as stated fails in every
  run (the score distribution has no x). What holds: two random sources give different
  trend and score values, and every run satisfies invariant 1 for the series that have an
  x, and invariants 2 to 4.
\<close>

theorem reruns_differ_invariants_hold:
  assumes "selected_year \<in> set fiscal_years"
  shows "(\<exists>g1 g2 d1 d2. dashboard_py selected_year selected_scope g1 = Inr d1
              \<and> dashboard_py selected_year selected_scope g2 = Inr d2
              \<and> sy (fig_ghg d1) \<noteq> sy (fig_ghg d2)
              \<and> sy (fig_dist d1) \<noteq> sy (fig_dist d2))
       \<and> (\<exists>d. dashboard_py selected_year selected_scope g = Inr d
              \<and> lengths_agree d \<and> year_values_shown selected_year d
              \<and> percentages_in_range d \<and> sample_counts d)"
proof -
  have b: "1678 \<le> selected_year" "selected_year < 2262"
    using fiscal_year_bounds [OF assms] by simp_all
  have t: "map (\<lambda>i. 6000 + real i * (- 1500 / 11) + 100 * gauss (rng_const 0) i) [0..<12]
        \<noteq> map (\<lambda>i. 6000 + real i * (- 1500 / 11) + 100 * gauss (rng_const 1) i) [0..<12]"
    by (rule const_maps_differ) (simp_all add: rng_const_def)
  have s: "map (\<lambda>i. 72 + 10 * gauss (rng_const 0) (i + 12)) [0..<200]
        \<noteq> map (\<lambda>i. 72 + 10 * gauss (rng_const 1) (i + 12)) [0..<200]"
    by (rule const_maps_differ) (simp_all add: rng_const_def)
  have differ: "\<exists>g1 g2 d1 d2. dashboard_py selected_year selected_scope g1 = Inr d1
      \<and> dashboard_py selected_year selected_scope g2 = Inr d2
      \<and> sy (fig_ghg d1) \<noteq> sy (fig_ghg d2) \<and> sy (fig_dist d1) \<noteq> sy (fig_dist d2)"
    apply (rule exI [of _ "rng_const 0"])
    apply (rule exI [of _ "rng_const 1"])
    using t s by (simp add: dashboard_py_value [OF b])
  obtain d where d: "dashboard_py selected_year selected_scope g = Inr d"
    using dashboard_py_returns [OF assms] by blast
  have "lengths_agree d" "year_values_shown selected_year d" "percentages_in_range d"
    "sample_counts d"
    using lengths_agree_run [OF b, of selected_scope g]
      year_values_run [OF b, of selected_scope g]
      percentages_run [OF b, of selected_scope g]
      sample_counts_run [OF b, of selected_scope g]
    by (simp_all add: d)
  then show ?thesis
    using differ d by blast
qed

theorem reruns_differ_invariants_hold_witness:
  "(2024::int) \<in> set fiscal_years
   \<and> (\<exists>g1 g2 d1 d2. dashboard_py 2024 ''EMEA'' g1 = Inr d1
        \<and> dashboard_py 2024 ''EMEA'' g2 = Inr d2
        \<and> sy (fig_ghg d1) \<noteq> sy (fig_ghg d2)
        \<and> sy (fig_dist d1) \<noteq> sy (fig_dist d2))
   \<and> (\<exists>d. dashboard_py 2024 ''EMEA'' (rng_const 1) = Inr d
        \<and> lengths_agree d \<and> year_values_shown 2024 d
        \<and> percentages_in_range d \<and> sample_counts d)"
proof -
  have y: "(2024::int) \<in> set fiscal_years"
    by (simp add: fiscal_years_def)
  show ?thesis
    using y reruns_differ_invariants_hold [OF y, of "''EMEA''" "rng_const 1"] by blast
qed

theorem invariant_1_fails_on_score_distribution:
  "\<not> isl (dashboard_py 2024 ''EMEA'' (rng_const 1))
   \<and> \<not> list_all xy_same_length
          (all_series (projr (dashboard_py 2024 ''EMEA'' (rng_const 1))))"
  by (simp add: dashboard_py_value all_series_def xy_same_length_def)

text \<open>
  C8. As stated, the trend is a linear ramp plus uniform noise and the scores are normal
  draws. The script draws the noise of the trend with \<^verbatim>\<open>np.random.normal\<close>: no choice of
  bounds makes uniform noise on the ramp equal to the trend for every random source. What
  holds: the trend is the ramp from 6000 to 4500 in 12 steps plus normal draws of mean 0
  and deviation 100, whatever the uniform variates are, and the scores are 200 normal
  draws of mean 72 and deviation 10, drawn after those of the trend.
\<close>

theorem trend_noise_is_normal:
  assumes "selected_year \<in> set fiscal_years"
  shows "np_linspace 6000 4500 12 = map (\<lambda>i. 6000 - real i * (1500 / 11)) [0..<12]
       \<and> fst (trend_vals g)
           = Inr (map2 (+) (np_linspace 6000 4500 12) (fst (np_random_normal 0 100 12 g)))
       \<and> fst (trend_vals (g\<lparr>unif := u\<rparr>)) = fst (trend_vals g)
       \<and> fst (scores g) = fst (np_random_normal 72 10 200 g)
       \<and> (\<exists>d. dashboard_py selected_year selected_scope g = Inr d
              \<and> Inr (sy (fig_ghg d)) = fst (trend_vals g)
              \<and> sy (fig_dist d) = fst (scores (snd (trend_vals g))))"
proof -
  have ramp: "np_linspace 6000 4500 12 = map (\<lambda>i. 6000 - real i * (1500 / 11)) [0..<12]"
    by (simp add: np_linspace_def)
  have sum: "fst (trend_vals g)
      = Inr (map2 (+) (np_linspace 6000 4500 12) (fst (np_random_normal 0 100 12 g)))"
    by (simp add: trend_vals_def np_random_normal_def np_add_def np_linspace_def)
  have frame: "fst (trend_vals (g\<lparr>unif := u\<rparr>)) = fst (trend_vals g)"
    by (simp add: trend_vals_value)
  have sc: "fst (scores g) = fst (np_random_normal 72 10 200 g)"
    by (simp add: scores_def)
  have run: "\<exists>d. dashboard_py selected_year selected_scope g = Inr d
      \<and> Inr (sy (fig_ghg d)) = fst (trend_vals g)
      \<and> sy (fig_dist d) = fst (scores (snd (trend_vals g)))"
    using fiscal_year_bounds [OF assms]
    by (simp add: dashboard_py_value trend_vals_value scores_value)
  show ?thesis
    using ramp sum frame sc run by blast
qed

theorem trend_noise_is_normal_witness:
  "(2025::int) \<in> set fiscal_years
   \<and> fst (trend_vals rng_spike)
       = Inr (map2 (+) (np_linspace 6000 4500 12) (fst (np_random_normal 0 100 12 rng_spike)))
   \<and> (\<exists>d. dashboard_py 2025 ''APAC'' rng_spike = Inr d
        \<and> Inr (sy (fig_ghg d)) = fst (trend_vals rng_spike)
        \<and> sy (fig_dist d) = fst (scores (snd (trend_vals rng_spike))))"
proof -
  have y: "(2025::int) \<in> set fiscal_years"
    by (simp add: fiscal_years_def)
  show ?thesis
    using y trend_noise_is_normal [OF y, of rng_spike _ "''APAC''"] by blast
qed

theorem trend_noise_is_not_uniform:
  "\<not> (\<exists>low high. \<forall>g. fst (trend_vals g) = fst (trend_vals_as_specified low high g))"
proof
  assume "\<exists>low high. \<forall>g. fst (trend_vals g) = fst (trend_vals_as_specified low high g)"
  then obtain low high
    where "fst (trend_vals rng_spike) = fst (trend_vals_as_specified low high rng_spike)"
    by blast
  then have "map (\<lambda>i. 6000 + real i * (- 1500 / 11) + 100 * gauss rng_spike i) [0..<12]
     = map (\<lambda>i. 6000 + real i * (- 1500 / 11) + (low + (high - low) * unif rng_spike i))
         [0..<12]"
    by (simp add: trend_vals_value trend_vals_as_specified_def np_random_uniform_def
        np_add_def np_linspace_def zip_map_map map2_map_map zip_same_conv_map add.assoc)
  then have "\<forall>i<12. 100 * gauss rng_spike i = low + (high - low) * unif rng_spike i"
    by (simp add: list_eq_iff_nth_eq)
  then have "100 * gauss rng_spike 0 = low + (high - low) * unif rng_spike 0"
    and "100 * gauss rng_spike 1 = low + (high - low) * unif rng_spike 1"
    by simp_all
  then show False
    by (simp add: rng_spike_def)
qed

text \<open>
  C9. As stated, generation succeeds for every fiscal year and scope of the selectors,
  with no error reachable. On a pandas that refuses the frequency alias of line 118 every
  run ends in \<^verbatim>\<open>ValueError\<close> there. What holds: on a pandas that accepts the alias, for
  every fiscal year and scope of the selectors and every random source, the run raises
  nothing and returns its five cards and six series; on a pandas that refuses it, the run
  raises \<^verbatim>\<open>ValueError\<close>.
\<close>

theorem generation_total_where_alias_accepted:
  assumes "selected_year \<in> set fiscal_years" and "selected_scope \<in> set scopes"
  shows "(\<exists>d. dashboard_py_in Accepts_M selected_year selected_scope g = Inr d
              \<and> length (kpis d) = 5 \<and> length (all_series d) = 6)
       \<and> dashboard_py_in Rejects_M selected_year selected_scope g = Inl ValueError"
proof -
  have "\<exists>d. dashboard_py selected_year selected_scope g = Inr d
      \<and> length (kpis d) = 5 \<and> length (all_series d) = 6"
    using fiscal_year_bounds [OF assms(1)]
    by (simp add: dashboard_py_value all_series_def)
  then show ?thesis
    by (simp add: dashboard_py_def dashboard_py_in_refused)
qed

theorem generation_total_where_alias_accepted_witness:
  "(2023::int) \<in> set fiscal_years \<and> ''APAC'' \<in> set scopes
   \<and> (\<exists>d. dashboard_py_in Accepts_M 2023 ''APAC'' (rng_const 1) = Inr d
        \<and> length (kpis d) = 5 \<and> length (all_series d) = 6)
   \<and> dashboard_py_in Rejects_M 2023 ''APAC'' (rng_const 1) = Inl ValueError"
proof -
  have y: "(2023::int) \<in> set fiscal_years"
    by (simp add: fiscal_years_def)
  have s: "''APAC'' \<in> set scopes"
    by (simp add: scopes_def)
  show ?thesis
    using y s generation_total_where_alias_accepted [OF y s, of "rng_const 1"] by simp
qed

theorem generation_raises_where_alias_refused:
  "isl (dashboard_py_in Rejects_M 2023 ''APAC'' (rng_const 1))
   \<and> dashboard_py_in Rejects_M 2023 ''APAC'' (rng_const 1) = Inl ValueError"
  by (simp add: dashboard_py_in_def pd_date_range_def)

text \<open>
  C10. The selected scope reaches the header text only: with the same fiscal year and random
  source, the run for one scope is the run for any other scope with the header replaced,
  so every card and every series is the same.
\<close>

theorem scope_only_in_header:
  "dashboard_py y scope2 g
     = map_sum id (header_update (\<lambda>_. header_text scope2 y)) (dashboard_py y scope1 g)"
  by (simp add: dashboard_py_def dashboard_py_in_def Let_def split: sum.splits prod.splits)

theorem scope_only_in_header_witness:
  "dashboard_py 2024 ''EMEA'' (rng_const 0)
     = map_sum id (header_update (\<lambda>_. header_text ''EMEA'' 2024))
         (dashboard_py 2024 ''Global'' (rng_const 0))"
  by (rule scope_only_in_header)

end
